theory Spec2Isabelle
  imports Main
begin

section \<open>The playbook generation wizard (playbookGeneration.ts)\<close>

text \<open>
  The file keeps two module-level variables, \<open>wizardId\<close> and \<open>currentPage\<close>, and registers
  two callbacks on every webview panel it creates: one for the disposal of the panel and
  one for the messages of the webview. Everything else is a call into the host (the
  editor's API, the Lightspeed API object, the uuid library). The model keeps the two
  variables in a record, writes every call into the host as an entry of a trace, and takes
  every value the host gives back as an input.
\<close>

subsection \<open>Data\<close>

type_synonym panel = nat

datatype WizardGenerationActionType = OPEN | CLOSE_CANCEL | CLOSE_ACCEPT | TRANSITION

text \<open>
  A message of the webview. A field the webview did not set (\<open>undefined\<close> in the source)
  is \<open>None\<close>.
\<close>

record message =
  command :: "string option"
  text' :: "string option"
  outline :: "string option"
  playbook :: "string option"
  generationId :: "string option"
  toPage :: "int option"

text \<open>
  The two shapes of a settled remote call. The interfaces are declared outside this file;
  the fields are the ones this file reads, and the type guard \<open>isError\<close> is the tag of
  the union.
\<close>

record PlaybookGenerationResponseParams =
  response_playbook :: string
  response_generationId :: string
  response_outline :: "string option"

record IError =
  error_message :: "string option"
  error_detail :: "string option"

datatype response = Generated PlaybookGenerationResponseParams | Failed IError

text \<open>How the promise of the remote call settles: with a response, or with an exception
  and its message.\<close>

datatype outcome = Resolves response | Rejects string

text \<open>What the host is asked to post into the webview.\<close>

datatype webview_message =
    StartSpinner
  | StopSpinner
  | Init
  | OutlineResponse PlaybookGenerationResponseParams
  | OutlineEcho "string option" "string option" "string option"
  | PlaybookMessage "string option" "string option" "string option"
  | ResetOutline

text \<open>The calls into the host, in the order the code makes them.\<close>

datatype effect =
    FeedbackRequest string WizardGenerationActionType "int option" "int option" bool
  | ShowErrorMessage string
  | ShowInformationMessage string bool string "string list"
  | PostMessage panel webview_message
  | PlaybookGenerationRequest "string option" "string option" bool "string option" "string option"
  | ShowPopup IError
  | OpenTextDocument string "string option"
  | ShowTextDocument
  | CreateWebviewPanel panel
  | SetTitle panel string
  | SetHtml panel
  | PanelDispose panel
  | SuggestionDetails "string option" "string option" bool
  | FetchTrainingMatches

text \<open>
  A generation request whose promise has not settled yet, with the code that waits for it:
  the \<open>then\<close> callback of the \<open>outline\<close> case, or the rest of the \<open>generateCode\<close>
  case after its \<open>await\<close> (which still reads the message).
\<close>

datatype pending = OutlineThen panel | GenerateCodeAwait panel message

fun pending_panel :: "pending \<Rightarrow> panel" where
  "pending_panel (OutlineThen p) = p"
| "pending_panel (GenerateCodeAwait p m) = p"

record world =
  wizardId :: "string option"
  currentPage :: "int option"
  trace :: "effect list"
  inflight :: "pending list"
  panels :: "panel list"

text \<open>
  What one run of a callback reads from outside the file: the constant \<open>UNKNOWN_ERROR\<close>,
  whether the environment variable \<open>TEST_LIGHTSPEED_ACCESS_TOKEN\<close> is set, whether
  \<open>feedbackRequest\<close> throws (and the exception's message), what the trial provider's
  \<open>showPopup\<close> answers, whether \<open>openTextDocument\<close> or \<open>showTextDocument\<close> rejects, and
  the button the user picks in the information message. The answers of \<open>showPopup\<close> and
  of the information message are taken at once: the code that waits for them touches
  neither variable. So is the answer of the editor: the two calls that open it touch
  neither variable, and the \<open>openEditor\<close> case stands in the event loop at the moment its
  \<open>await\<close> resumes.
\<close>

record env =
  UNKNOWN_ERROR :: string
  test_token :: bool
  feedback_throws :: "string option"
  showPopup :: bool
  openTextDocument_rejects :: "string option"
  showTextDocument_rejects :: "string option"
  answer :: "string option"

definition init :: world where
  "init = \<lparr>wizardId = None, currentPage = None, trace = [], inflight = [], panels = []\<rparr>"

definition emit :: "effect \<Rightarrow> world \<Rightarrow> world" where
  "emit e s = s\<lparr>trace := trace s @ [e]\<rparr>"

text \<open>JavaScript's truth value of a string that may be undefined: \<open>undefined\<close> and the
  empty string are false.\<close>

fun truthy :: "string option \<Rightarrow> bool" where
  "truthy None = False"
| "truthy (Some v) = (v \<noteq> [])"

subsection \<open>The functions of the file\<close>

text \<open>\<open>openNewPlaybookEditor\<close>: opens a document and shows it; an exception of either
  call ends the function and goes on to the caller.\<close>

definition openNewPlaybookEditor :: "env \<Rightarrow> string option \<Rightarrow> world \<Rightarrow> world \<times> string option" where
  "openNewPlaybookEditor en pb s =
     (let s1 = emit (OpenTextDocument ''ansible'' pb) s
      in (case openTextDocument_rejects en of
            Some e \<Rightarrow> (s1, Some e)
          | None \<Rightarrow> (emit ShowTextDocument s1, showTextDocument_rejects en)))"

definition editor_opens :: "env \<Rightarrow> bool" where
  "editor_opens en = (openTextDocument_rejects en = None \<and> showTextDocument_rejects en = None)"

definition contentMatch :: "string option \<Rightarrow> string option \<Rightarrow> world \<Rightarrow> world" where
  "contentMatch gid pb s = emit FetchTrainingMatches (emit (SuggestionDetails gid pb True) s)"

text \<open>
  \<open>sendActionEvent\<close>: nothing at all unless \<open>wizardId\<close> is truthy; otherwise the page is
  updated first, then the feedback request is made, and an exception of that call is
  shown as an error message.
\<close>

definition sendActionEvent :: "env \<Rightarrow> WizardGenerationActionType \<Rightarrow> int option \<Rightarrow> world \<Rightarrow> world" where
  "sendActionEvent en action tp s =
     (if truthy (wizardId s) then
        (let fromPage = currentPage s;
             s1 = s\<lparr>currentPage := tp\<rparr>;
             s2 = emit (FeedbackRequest (the (wizardId s)) action fromPage tp (test_token en)) s1
         in (case feedback_throws en of
               None \<Rightarrow> s2
             | Some msg \<Rightarrow> emit (ShowErrorMessage msg) s2))
      else s)"

text \<open>
  \<open>generatePlaybook\<close> up to its \<open>await\<close>: the spinner starts and the request is made, with
  \<open>createOutline\<close> true exactly when no outline was passed.
\<close>

definition generatePlaybook :: "string option \<Rightarrow> string option \<Rightarrow> string option \<Rightarrow> panel \<Rightarrow> world \<Rightarrow> world" where
  "generatePlaybook txt ol gid p s =
     emit (PlaybookGenerationRequest txt ol (ol = None) gid (wizardId s))
       (emit (PostMessage p StartSpinner) s)"

text \<open>
  \<open>generatePlaybook\<close> from the moment the promise settles: the \<open>finally\<close> block posts
  \<open>stopSpinner\<close>, then the response is returned or the exception goes on to the caller.
\<close>

definition generatePlaybook_finally :: "panel \<Rightarrow> outcome \<Rightarrow> world \<Rightarrow> world \<times> (string + response)" where
  "generatePlaybook_finally p oc s =
     (emit (PostMessage p StopSpinner) s,
      (case oc of Resolves r \<Rightarrow> Inr r | Rejects e \<Rightarrow> Inl e))"

text \<open>The string both error branches build:
  \<open>`${response.message ?? UNKNOWN_ERROR} ${response.detail ?? ""}`\<close>.\<close>

definition errorMessage :: "env \<Rightarrow> IError \<Rightarrow> string" where
  "errorMessage en e =
     (case error_message e of None \<Rightarrow> UNKNOWN_ERROR en | Some m \<Rightarrow> m) @ '' '' @
     (case error_detail e of None \<Rightarrow> [] | Some d \<Rightarrow> d)"

text \<open>
  The disposal callback. \<open>sendActionEvent\<close> has no \<open>await\<close> in its body, so awaiting it
  resumes before the host dispatches anything else, and the callback is one step.
\<close>

definition onDidDispose :: "env \<Rightarrow> world \<Rightarrow> world" where
  "onDidDispose en s = (sendActionEvent en CLOSE_CANCEL None s)\<lparr>wizardId := None\<rparr>"

text \<open>\<open>panel.dispose()\<close>: the host closes the panel and fires the disposal callback.\<close>

definition dispose :: "panel \<Rightarrow> env \<Rightarrow> world \<Rightarrow> world" where
  "dispose p en s = onDidDispose en ((emit (PanelDispose p) s)\<lparr>panels := removeAll p (panels s)\<rparr>)"

text \<open>The tail of the \<open>generateCode\<close> case: post the playbook, then \<open>contentMatch\<close>.\<close>

definition postPlaybook :: "panel \<Rightarrow> string option \<Rightarrow> string option \<Rightarrow> string option \<Rightarrow> world \<Rightarrow> world" where
  "postPlaybook p pb gid ol s = contentMatch gid pb (emit (PostMessage p (PlaybookMessage pb gid ol)) s)"

text \<open>
  The message callback, one branch per \<open>case\<close> of the \<open>switch\<close>, up to the point where the
  callback returns or waits for the remote call. The \<open>outline\<close> case does not wait: it
  attaches a \<open>then\<close> callback and breaks. The \<open>generateCode\<close> case waits inside its own
  invocation. In the \<open>openEditor\<close> case an exception of \<open>openNewPlaybookEditor\<close> ends the
  callback. A command that matches no \<open>case\<close> falls out of the \<open>switch\<close>.
\<close>

definition onDidReceiveMessage :: "panel \<Rightarrow> env \<Rightarrow> message \<Rightarrow> world \<Rightarrow> world" where
  "onDidReceiveMessage p en m s =
     (if command m = Some ''outline'' then
        (if \<not> truthy (outline m) then
           (let s1 = generatePlaybook (text' m) None (generationId m) p s
            in s1\<lparr>inflight := inflight s1 @ [OutlineThen p]\<rparr>)
         else emit (PostMessage p (OutlineEcho (playbook m) (outline m) (generationId m))) s)
      else if command m = Some ''generateCode'' then
        (if \<not> truthy (playbook m) then
           (let s1 = generatePlaybook (text' m) (outline m) (generationId m) p s
            in s1\<lparr>inflight := inflight s1 @ [GenerateCodeAwait p m]\<rparr>)
         else postPlaybook p (playbook m) (generationId m) (outline m) s)
      else if command m = Some ''transition'' then
        sendActionEvent en TRANSITION (toPage m) s
      else if command m = Some ''openEditor'' then
        (case openNewPlaybookEditor en (playbook m) s of
           (s1, Some e) \<Rightarrow> s1
         | (s1, None) \<Rightarrow>
             (let s2 = sendActionEvent en CLOSE_ACCEPT None s1;
                  s3 = s2\<lparr>wizardId := None\<rparr>
              in dispose p en s3))
      else if command m = Some ''resetOutline'' then
        (let s1 = emit (ShowInformationMessage ''Are you sure?'' True
                          ''Resetting the outline will loose your changes.'' [''Ok'']) s
         in (if answer en = Some ''Ok'' then emit (PostMessage p ResetOutline) s1 else s1))
      else s)"

text \<open>
  What runs when the promise of a pending request settles. For the \<open>then\<close> callback of
  the \<open>outline\<close> case a rejection has no handler: the surrounding \<open>try\<close> has long been left.
\<close>

fun settle :: "pending \<Rightarrow> outcome \<Rightarrow> env \<Rightarrow> world \<Rightarrow> world" where
  "settle (OutlineThen p) oc en s =
     (case generatePlaybook_finally p oc s of
        (s1, Inl e) \<Rightarrow> s1
      | (s1, Inr (Failed err)) \<Rightarrow>
          (let s2 = emit (ShowPopup err) s1
           in (if \<not> showPopup en then emit (ShowErrorMessage (errorMessage en err)) s2 else s2))
      | (s1, Inr (Generated r)) \<Rightarrow> emit (PostMessage p (OutlineResponse r)) s1)"
| "settle (GenerateCodeAwait p m) oc en s =
     (case generatePlaybook_finally p oc s of
        (s1, Inl e) \<Rightarrow> emit (ShowErrorMessage e) s1
      | (s1, Inr (Failed err)) \<Rightarrow> emit (ShowErrorMessage (errorMessage en err)) s1
      | (s1, Inr (Generated r)) \<Rightarrow>
          postPlaybook p (Some (response_playbook r)) (Some (response_generationId r)) (outline m) s1)"

text \<open>
  \<open>showPlaybookGenerationPage\<close> from the answer of \<open>isAuthenticated\<close> on. The identifier
  \<open>uuidv4()\<close> returns and the panel the host creates are inputs.
\<close>

definition showPlaybookGenerationPage :: "bool \<Rightarrow> string \<Rightarrow> panel \<Rightarrow> env \<Rightarrow> world \<Rightarrow> world" where
  "showPlaybookGenerationPage isAuthenticated uuid p en s =
     (if \<not> isAuthenticated then
        emit (ShowErrorMessage ''Log in to Ansible Lightspeed to use this feature.'') s
      else
        (let s1 = (emit (CreateWebviewPanel p) s)\<lparr>panels := panels s @ [p]\<rparr>;
             s2 = s1\<lparr>wizardId := Some uuid\<rparr>;
             s3 = emit (SetTitle p ''Ansible Lightspeed'') s2;
             s4 = emit (SetHtml p) s3;
             s5 = emit (PostMessage p Init) s4
         in sendActionEvent en OPEN (Some 1) s5))"

subsection \<open>The host's event loop\<close>

text \<open>
  The host runs one callback at a time: the command opens the wizard, the webview of a
  panel sends a message, the promise of a pending request settles, the user closes a
  panel.
\<close>

datatype event =
    ShowPage bool string panel env
  | Receive panel message env
  | Settle nat outcome env
  | Close panel env

fun step :: "world \<Rightarrow> event \<Rightarrow> world" where
  "step s (ShowPage a u p en) = showPlaybookGenerationPage a u p en s"
| "step s (Receive p m en) = onDidReceiveMessage p en m s"
| "step s (Settle i oc en) =
     (if i < length (inflight s)
      then settle (inflight s ! i) oc en (s\<lparr>inflight := take i (inflight s) @ drop (Suc i) (inflight s)\<rparr>)
      else s)"
| "step s (Close p en) = onDidDispose en (s\<lparr>panels := removeAll p (panels s)\<rparr>)"

definition run :: "event list \<Rightarrow> world" where
  "run es = foldl step init es"

text \<open>The uuid library never returns the empty string.\<close>

fun uuid_ok :: "event \<Rightarrow> bool" where
  "uuid_ok (ShowPage a u p en) = (u \<noteq> [])"
| "uuid_ok e = True"

text \<open>What a claim counts in a trace: the feedback requests, the close events among
  them, the strings shown as error messages, and the part of a trace one step added.\<close>

fun is_feedback :: "effect \<Rightarrow> bool" where
  "is_feedback (FeedbackRequest w a f t b) = True"
| "is_feedback e = False"

fun is_close :: "effect \<Rightarrow> bool" where
  "is_close (FeedbackRequest w a f t b) = (a = CLOSE_ACCEPT \<or> a = CLOSE_CANCEL)"
| "is_close e = False"

fun shown :: "effect list \<Rightarrow> string list" where
  "shown [] = []"
| "shown (ShowErrorMessage t # es) = t # shown es"
| "shown (e # es) = shown es"

text \<open>The remote requests in a trace, and the \<open>stopSpinner\<close> posts, of which
  \<open>generatePlaybook\<close> makes one whenever a request settles.\<close>

fun is_request :: "effect \<Rightarrow> bool" where
  "is_request (PlaybookGenerationRequest txt ol co gid w) = True"
| "is_request e = False"

fun is_stop :: "effect \<Rightarrow> bool" where
  "is_stop (PostMessage p StopSpinner) = True"
| "is_stop e = False"

definition since :: "world \<Rightarrow> world \<Rightarrow> effect list" where
  "since s s' = drop (length (trace s)) (trace s')"

text \<open>The commands the \<open>switch\<close> has a \<open>case\<close> for, and the messages that start a
  generation request.\<close>

definition commands :: "string option set" where
  "commands = {Some ''outline'', Some ''generateCode'', Some ''transition'', Some ''openEditor'',
               Some ''resetOutline''}"

definition starts_request :: "message \<Rightarrow> bool" where
  "starts_request m =
     (command m = Some ''outline'' \<and> \<not> truthy (outline m) \<or>
      command m = Some ''generateCode'' \<and> \<not> truthy (playbook m))"

text \<open>The events that leave \<open>wizardId\<close> alone: everything but an authenticated open, a
  close, and an \<open>openEditor\<close> message whose editor opens.\<close>

fun keeps_wizard :: "event \<Rightarrow> bool" where
  "keeps_wizard (ShowPage a u p en) = (\<not> a)"
| "keeps_wizard (Receive p m en) = (command m \<noteq> Some ''openEditor'' \<or> \<not> editor_opens en)"
| "keeps_wizard (Settle i oc en) = True"
| "keeps_wizard (Close p en) = False"

text \<open>
  The invariant of the two variables: when \<open>wizardId\<close> is not truthy it is undefined, and
  so is \<open>currentPage\<close>.
\<close>

definition wizard_inv :: "world \<Rightarrow> bool" where
  "wizard_inv s = (truthy (wizardId s) \<or> wizardId s = None \<and> currentPage s = None)"

section \<open>The bootstrap script\<close>

text \<open>
  The script runs under \<open>set -euo pipefail\<close>. The model covers the function \<open>log\<close> and
  the blocks of the script that hold an \<open>exit\<close> statement, each block on its own: the
  rest of the script (installations, the podman and npm setup, the manifest) is not
  modelled, and nothing is said about a whole run. Inside a block, what the script tests
  is a field of \<open>shell_env\<close>; every \<open>echo\<close> and every command run for its effect is an
  \<open>action\<close>, in the order of the script; a command whose status the script does not test
  ends the script with that status when it fails.
\<close>

text \<open>
  The actions: \<open>echo ARG\<close> on stdout (line 92), \<open>echo -e ARG\<close> on stderr (line 54, with
  the argument as the script passes it, before \<open>echo -e\<close> interprets its backslash
  sequences), \<open>git config KEY VALUE\<close> (lines 97 and 98), \<open>python3 -m venv\<close> (line 182),
  sourcing the \<open>activate\<close> script (lines 185 and 190), \<open>python3 -m venv --clear\<close>
  (line 189) and \<open>pipx uninstall --verbose TOOL\<close> (lines 225 and 233).
\<close>

datatype action =
    Echo string
  | Echo_e string
  | GitConfig string string
  | VenvCreate
  | Activate
  | VenvClear
  | PipxUninstall string

text \<open>How the script ends: by an \<open>exit\<close> statement, or by the shell itself under
  \<open>set -e\<close> with the status of the command that failed.\<close>

datatype ending = Exit int | Errexit int

type_synonym script = "action list \<Rightarrow> action list \<times> ending option"



text \<open>A command run for its effect, with the status it returns: a status other than 0
  ends the script.\<close>

definition run_cmd :: "action \<Rightarrow> int \<Rightarrow> script" where
  "run_cmd a status t = (t @ [a], if status = 0 then None else Some (Errexit status))"



text \<open>
  What the blocks observe: the status of the builtin \<open>echo\<close> on stdout and on stderr;
  the variables \<open>GIT_NOT_CONFIGURED\<close>, \<open>CI\<close> and \<open>OS\<close> (empty when unset; the script
  reads them with \<open>:-\<close>); whether the two \<open>git config\<close> queries succeed and the status
  of the two \<open>git config\<close> settings; whether the python test of the current directory's
  mode exits with a status other than 0; whether the virtualenv directory exists; the
  status of \<open>python3 -m venv\<close>, of sourcing \<open>activate\<close> and of
  \<open>python3 -m venv --clear\<close>; whether the test of \<open>which python3\<close> against the
  virtualenv's python finds them equal, after the first activation and after the second;
  the lines \<open>which -a\<close> prints for a tool; what \<open>command -v\<close> prints for a tool
  (nothing when it fails); \<open>pwd -P\<close>; and the base name of the script.
\<close>

record shell_env =
  echo_out_status :: int
  echo_err_status :: int
  GIT_NOT_CONFIGURED :: string
  CI :: string
  OS :: string
  git_user_email :: bool
  git_user_name :: bool
  git_config_email_status :: int
  git_config_name_status :: int
  world_writable :: bool
  venv_exists :: bool
  venv_status :: int
  activate_status :: int
  python3_in_venv :: bool
  venv_clear_status :: int
  activate_again_status :: int
  python3_in_venv_again :: bool
  which_a :: "string \<Rightarrow> string list"
  command_v :: "string \<Rightarrow> string option"
  pwd_P :: string
  script_name :: string



text \<open>The backslash, which a string literal of this file cannot hold, and the colour
  codes of \<open>log\<close>: \<open>NC\<close> (line 14) and the three prefixes (lines 49 to 51).\<close>

definition backslash :: string where
  "backslash = [CHR 0x5C]"

definition NC :: string where
  "NC = backslash @ ''033[0m''"




text \<open>The last line of \<open>log\<close>: \<open>>&2 echo -e "${prefix}${2}${NC}"\<close>.\<close>

definition echo_e :: "shell_env \<Rightarrow> string \<Rightarrow> string \<Rightarrow> script" where
  "echo_e e prefix msg = run_cmd (Echo_e (prefix @ msg @ NC)) (echo_err_status e)"













section \<open>Concrete inputs\<close>

definition env0 :: env where
  "env0 = \<lparr>UNKNOWN_ERROR = ''unknown error'', test_token = False, feedback_throws = None,
            showPopup = False, openTextDocument_rejects = None, showTextDocument_rejects = None,
            answer = None\<rparr>"

definition msg0 :: message where
  "msg0 = \<lparr>command = None, text' = None, outline = None, playbook = None,
            generationId = None, toPage = None\<rparr>"

definition transition2 :: message where
  "transition2 = msg0\<lparr>command := Some ''transition'', toPage := Some 2\<rparr>"

definition ask_outline :: message where
  "ask_outline = msg0\<lparr>command := Some ''outline'', text' := Some ''install nginx'',
                       generationId := Some ''g1''\<rparr>"

definition ask_code :: message where
  "ask_code = msg0\<lparr>command := Some ''generateCode'', text' := Some ''install nginx'',
                    outline := Some ''1. Install nginx'', generationId := Some ''g1''\<rparr>"

definition open_editor :: message where
  "open_editor = msg0\<lparr>command := Some ''openEditor'', playbook := Some ''- hosts: all''\<rparr>"

definition err0 :: IError where
  "err0 = \<lparr>error_message = Some ''Too many requests'', error_detail = None\<rparr>"

definition one_panel :: "event list" where
  "one_panel = [ShowPage True ''w1'' 0 env0, Receive 0 transition2 env0]"

definition two_panels :: "event list" where
  "two_panels = [ShowPage True ''w1'' 0 env0, ShowPage True ''w2'' 1 env0, Close 0 env0]"







section \<open>Facts about the wizard's functions\<close>

lemmas eval_defs = run_def init_def env0_def msg0_def showPlaybookGenerationPage_def
  sendActionEvent_def emit_def onDidReceiveMessage_def onDidDispose_def dispose_def
  generatePlaybook_def generatePlaybook_finally_def postPlaybook_def contentMatch_def
  openNewPlaybookEditor_def editor_opens_def errorMessage_def since_def Let_def

lemmas input_defs = transition2_def ask_outline_def ask_code_def open_editor_def err0_def
  one_panel_def two_panels_def

lemma emit_fields [simp]:
  "wizardId (emit e s) = wizardId s"
  "currentPage (emit e s) = currentPage s"
  "inflight (emit e s) = inflight s"
  "panels (emit e s) = panels s"
  "trace (emit e s) = trace s @ [e]"
  by (simp_all add: emit_def)

lemma sendActionEvent_fields:
  "wizardId (sendActionEvent en a tp s) = wizardId s"
  "inflight (sendActionEvent en a tp s) = inflight s"
  "panels (sendActionEvent en a tp s) = panels s"
  "currentPage (sendActionEvent en a tp s) = (if truthy (wizardId s) then tp else currentPage s)"
  by (simp_all add: sendActionEvent_def Let_def split: option.splits)

lemma sendActionEvent_trace:
  "trace (sendActionEvent en a tp s) =
     trace s @ (if truthy (wizardId s)
                then FeedbackRequest (the (wizardId s)) a (currentPage s) tp (test_token en) #
                     (case feedback_throws en of None \<Rightarrow> [] | Some e \<Rightarrow> [ShowErrorMessage e])
                else [])"
  by (simp add: sendActionEvent_def Let_def split: option.splits)

lemma onDidDispose_fields:
  "wizardId (onDidDispose en s) = None"
  "currentPage (onDidDispose en s) = (if truthy (wizardId s) then None else currentPage s)"
  "inflight (onDidDispose en s) = inflight s"
  "panels (onDidDispose en s) = panels s"
  by (simp_all add: onDidDispose_def sendActionEvent_fields)

lemma generatePlaybook_fields [simp]:
  "wizardId (generatePlaybook t ol g p s) = wizardId s"
  "currentPage (generatePlaybook t ol g p s) = currentPage s"
  "inflight (generatePlaybook t ol g p s) = inflight s"
  "panels (generatePlaybook t ol g p s) = panels s"
  "trace (generatePlaybook t ol g p s) =
     trace s @ [PostMessage p StartSpinner, PlaybookGenerationRequest t ol (ol = None) g (wizardId s)]"
  by (simp_all add: generatePlaybook_def)

lemma postPlaybook_fields [simp]:
  "wizardId (postPlaybook p pb g ol s) = wizardId s"
  "currentPage (postPlaybook p pb g ol s) = currentPage s"
  "inflight (postPlaybook p pb g ol s) = inflight s"
  "panels (postPlaybook p pb g ol s) = panels s"
  "trace (postPlaybook p pb g ol s) =
     trace s @ [PostMessage p (PlaybookMessage pb g ol), SuggestionDetails g pb True, FetchTrainingMatches]"
  by (simp_all add: postPlaybook_def contentMatch_def)

lemma openNewPlaybookEditor_fields [simp]:
  "wizardId (fst (openNewPlaybookEditor en pb s)) = wizardId s"
  "currentPage (fst (openNewPlaybookEditor en pb s)) = currentPage s"
  "inflight (fst (openNewPlaybookEditor en pb s)) = inflight s"
  "panels (fst (openNewPlaybookEditor en pb s)) = panels s"
  by (simp_all add: openNewPlaybookEditor_def Let_def split: option.splits)

lemma openNewPlaybookEditor_result:
  "snd (openNewPlaybookEditor en pb s) = None \<longleftrightarrow> editor_opens en"
  "editor_opens en \<Longrightarrow>
   openNewPlaybookEditor en pb s =
     (emit ShowTextDocument (emit (OpenTextDocument ''ansible'' pb) s), None)"
  by (auto simp: openNewPlaybookEditor_def editor_opens_def Let_def split: option.splits)

lemma settle_fields:
  "wizardId (settle k oc en s) = wizardId s"
  "currentPage (settle k oc en s) = currentPage s"
  "inflight (settle k oc en s) = inflight s"
  "panels (settle k oc en s) = panels s"
  by (cases k; cases oc; simp add: generatePlaybook_finally_def Let_def split: response.splits)+

lemma onDidReceiveMessage_openEditor_eq:
  assumes "command m = Some ''openEditor''"
  shows "onDidReceiveMessage p en m s =
           (if editor_opens en
            then dispose p en
                   ((sendActionEvent en CLOSE_ACCEPT None
                      (emit ShowTextDocument (emit (OpenTextDocument ''ansible'' (playbook m)) s)))
                    \<lparr>wizardId := None\<rparr>)
            else fst (openNewPlaybookEditor en (playbook m) s))"
proof (cases "editor_opens en")
  case True
  then show ?thesis
    using assms by (simp add: onDidReceiveMessage_def openNewPlaybookEditor_result(2) Let_def)
next
  case False
  then have "snd (openNewPlaybookEditor en (playbook m) s) \<noteq> None"
    by (simp add: openNewPlaybookEditor_result(1))
  then obtain s1 e where "openNewPlaybookEditor en (playbook m) s = (s1, Some e)"
    by (cases "openNewPlaybookEditor en (playbook m) s") auto
  with False show ?thesis
    using assms by (simp add: onDidReceiveMessage_def)
qed

lemma onDidReceiveMessage_wizardId:
  "wizardId (onDidReceiveMessage p en m s) =
     (if command m = Some ''openEditor'' \<and> editor_opens en then None else wizardId s)"
proof (cases "command m = Some ''openEditor''")
  case True
  then show ?thesis
    by (simp add: onDidReceiveMessage_openEditor_eq dispose_def onDidDispose_fields)
next
  case False
  then show ?thesis
    by (simp add: onDidReceiveMessage_def sendActionEvent_fields Let_def)
qed

lemma onDidReceiveMessage_currentPage:
  "currentPage (onDidReceiveMessage p en m s) =
     (if truthy (wizardId s) \<and> command m = Some ''transition'' then toPage m
      else if truthy (wizardId s) \<and> command m = Some ''openEditor'' \<and> editor_opens en then None
      else currentPage s)"
proof (cases "command m = Some ''openEditor''")
  case True
  then show ?thesis
    by (simp add: onDidReceiveMessage_openEditor_eq dispose_def onDidDispose_fields
                  sendActionEvent_fields)
next
  case False
  then show ?thesis
    by (simp add: onDidReceiveMessage_def sendActionEvent_fields Let_def)
qed

lemma onDidReceiveMessage_inflight:
  "inflight (onDidReceiveMessage p en m s) =
     inflight s @ (if command m = Some ''outline'' \<and> \<not> truthy (outline m) then [OutlineThen p]
                   else if command m = Some ''generateCode'' \<and> \<not> truthy (playbook m)
                        then [GenerateCodeAwait p m]
                   else [])"
proof (cases "command m = Some ''openEditor''")
  case True
  then show ?thesis
    by (simp add: onDidReceiveMessage_openEditor_eq dispose_def onDidDispose_fields
                  sendActionEvent_fields)
next
  case False
  then show ?thesis
    by (simp add: onDidReceiveMessage_def sendActionEvent_fields Let_def)
qed

lemma onDidReceiveMessage_openEditor:
  assumes "command m = Some ''openEditor''" and "editor_opens en"
  shows "trace (onDidReceiveMessage p en m s) =
           trace s @ [OpenTextDocument ''ansible'' (playbook m), ShowTextDocument] @
             (if truthy (wizardId s)
              then FeedbackRequest (the (wizardId s)) CLOSE_ACCEPT (currentPage s) None (test_token en) #
                   (case feedback_throws en of None \<Rightarrow> [] | Some e \<Rightarrow> [ShowErrorMessage e])
              else []) @
             [PanelDispose p]"
  using assms
  by (simp add: onDidReceiveMessage_openEditor_eq dispose_def onDidDispose_def sendActionEvent_trace
                sendActionEvent_fields)

lemma onDidReceiveMessage_other:
  "command m \<notin> commands \<Longrightarrow> onDidReceiveMessage p en m s = s"
  by (simp add: onDidReceiveMessage_def commands_def)

lemma onDidReceiveMessage_acts:
  assumes "command m \<in> commands"
  shows "\<exists>en s. onDidReceiveMessage p en m s \<noteq> s"
proof -
  let ?s = "init\<lparr>wizardId := Some ''w''\<rparr>"
  have "length (trace (onDidReceiveMessage p env0 m ?s)) > length (trace ?s)"
    using assms
    by (auto simp: commands_def onDidReceiveMessage_def Let_def dispose_def onDidDispose_def
                   sendActionEvent_trace openNewPlaybookEditor_def env0_def init_def)
  then have "onDidReceiveMessage p env0 m ?s \<noteq> ?s" by auto
  then show ?thesis by blast
qed

subsection \<open>Requests in the trace and requests in flight\<close>

lemma sendActionEvent_requests:
  "filter is_request (trace (sendActionEvent en a tp s)) = filter is_request (trace s)"
  "filter is_stop (trace (sendActionEvent en a tp s)) = filter is_stop (trace s)"
  by (simp_all add: sendActionEvent_trace split: option.splits)

lemma onDidDispose_requests:
  "filter is_request (trace (onDidDispose en s)) = filter is_request (trace s)"
  "filter is_stop (trace (onDidDispose en s)) = filter is_stop (trace s)"
  by (simp_all add: onDidDispose_def sendActionEvent_requests)

lemma showPlaybookGenerationPage_requests:
  "filter is_request (trace (showPlaybookGenerationPage a u p en s)) = filter is_request (trace s)"
  "filter is_stop (trace (showPlaybookGenerationPage a u p en s)) = filter is_stop (trace s)"
  "inflight (showPlaybookGenerationPage a u p en s) = inflight s"
  by (simp_all add: showPlaybookGenerationPage_def Let_def sendActionEvent_requests
                    sendActionEvent_fields)

lemma onDidReceiveMessage_starts:
  assumes "starts_request m"
  shows "trace (onDidReceiveMessage p en m s) =
           trace s @ [PostMessage p StartSpinner,
                      PlaybookGenerationRequest (text' m)
                        (if command m = Some ''outline'' then None else outline m)
                        (command m = Some ''outline'' \<or> outline m = None)
                        (generationId m) (wizardId s)]"
  using assms by (auto simp: starts_request_def onDidReceiveMessage_def Let_def)

lemma onDidReceiveMessage_requests:
  "filter is_request (trace (onDidReceiveMessage p en m s)) =
     filter is_request (trace s) @
       (if starts_request m
        then [PlaybookGenerationRequest (text' m)
                (if command m = Some ''outline'' then None else outline m)
                (command m = Some ''outline'' \<or> outline m = None)
                (generationId m) (wizardId s)]
        else [])"
  "filter is_stop (trace (onDidReceiveMessage p en m s)) = filter is_stop (trace s)"
proof -
  have "filter is_request (trace (onDidReceiveMessage p en m s)) =
          filter is_request (trace s) @
            (if starts_request m
             then [PlaybookGenerationRequest (text' m)
                     (if command m = Some ''outline'' then None else outline m)
                     (command m = Some ''outline'' \<or> outline m = None)
                     (generationId m) (wizardId s)]
             else []) \<and>
        filter is_stop (trace (onDidReceiveMessage p en m s)) = filter is_stop (trace s)"
  proof (cases "starts_request m")
    case True
    then show ?thesis by (simp add: onDidReceiveMessage_starts)
  next
    case False
    show ?thesis
    proof (cases "command m = Some ''openEditor''")
      case True
      with False show ?thesis
        by (simp add: onDidReceiveMessage_openEditor_eq dispose_def onDidDispose_requests
                      sendActionEvent_requests openNewPlaybookEditor_def Let_def starts_request_def
                 split: option.splits)
    next
      case other: False
      with False show ?thesis
        by (auto simp: onDidReceiveMessage_def Let_def sendActionEvent_requests starts_request_def)
    qed
  qed
  then show
    "filter is_request (trace (onDidReceiveMessage p en m s)) =
       filter is_request (trace s) @
         (if starts_request m
          then [PlaybookGenerationRequest (text' m)
                  (if command m = Some ''outline'' then None else outline m)
                  (command m = Some ''outline'' \<or> outline m = None)
                  (generationId m) (wizardId s)]
          else [])"
    "filter is_stop (trace (onDidReceiveMessage p en m s)) = filter is_stop (trace s)"
    by simp_all
qed

lemma settle_requests:
  "filter is_request (trace (settle k oc en s)) = filter is_request (trace s)"
  "filter is_stop (trace (settle k oc en s)) =
     filter is_stop (trace s) @ [PostMessage (pending_panel k) StopSpinner]"
  by (cases k; cases oc; simp add: generatePlaybook_finally_def Let_def split: response.splits)+

lemma balance_step:
  assumes "length (filter is_request (trace s)) =
             length (filter is_stop (trace s)) + length (inflight s)"
  shows "length (filter is_request (trace (step s e))) =
           length (filter is_stop (trace (step s e))) + length (inflight (step s e))"
proof (cases e)
  case (ShowPage a u p en)
  with assms show ?thesis by (simp add: showPlaybookGenerationPage_requests)
next
  case (Receive p m en)
  with assms show ?thesis
    by (simp add: onDidReceiveMessage_requests onDidReceiveMessage_inflight starts_request_def)
next
  case (Settle i oc en)
  with assms show ?thesis by (auto simp: settle_requests settle_fields)
next
  case (Close p en)
  with assms show ?thesis by (simp add: onDidDispose_requests onDidDispose_fields)
qed

lemma balance_foldl:
  "length (filter is_request (trace s)) = length (filter is_stop (trace s)) + length (inflight s) \<Longrightarrow>
   length (filter is_request (trace (foldl step s es))) =
     length (filter is_stop (trace (foldl step s es))) + length (inflight (foldl step s es))"
  by (induction es arbitrary: s) (simp_all add: balance_step)

lemma balance_run:
  "length (filter is_request (trace (run es))) =
     length (filter is_stop (trace (run es))) + length (inflight (run es))"
  unfolding run_def by (rule balance_foldl) (simp add: init_def)

lemma requests_replicate:
  "starts_request m \<Longrightarrow>
   length (filter is_request (trace (foldl step s (replicate n (Receive p m en))))) =
     length (filter is_request (trace s)) + n \<and>
   filter is_stop (trace (foldl step s (replicate n (Receive p m en)))) = filter is_stop (trace s)"
  by (induction n arbitrary: s) (simp_all add: onDidReceiveMessage_requests)

subsection \<open>The invariant\<close>

lemma wizard_inv_onDidReceiveMessage:
  "wizard_inv s \<Longrightarrow> wizard_inv (onDidReceiveMessage p en m s)"
  by (auto simp: wizard_inv_def onDidReceiveMessage_wizardId onDidReceiveMessage_currentPage)

lemma wizard_inv_step:
  assumes "wizard_inv s" and "uuid_ok e"
  shows "wizard_inv (step s e)"
proof (cases e)
  case (ShowPage a u p en)
  with assms show ?thesis
    by (auto simp: showPlaybookGenerationPage_def wizard_inv_def sendActionEvent_fields Let_def)
next
  case (Receive p m en)
  with assms show ?thesis by (simp add: wizard_inv_onDidReceiveMessage)
next
  case (Settle i oc en)
  with assms show ?thesis by (auto simp: wizard_inv_def settle_fields)
next
  case (Close p en)
  with assms show ?thesis by (auto simp: wizard_inv_def onDidDispose_fields)
qed

lemma wizard_inv_foldl:
  "wizard_inv s \<Longrightarrow> list_all uuid_ok es \<Longrightarrow> wizard_inv (foldl step s es)"
  by (induction es arbitrary: s) (simp_all add: wizard_inv_step)

lemma wizard_inv_run: "list_all uuid_ok es \<Longrightarrow> wizard_inv (run es)"
  unfolding run_def by (rule wizard_inv_foldl) (simp_all add: wizard_inv_def init_def)

lemma keeps_wizard_step: "keeps_wizard e \<Longrightarrow> wizardId (step s e) = wizardId s"
  by (cases e) (auto simp: showPlaybookGenerationPage_def onDidReceiveMessage_wizardId settle_fields)

lemma keeps_wizard_foldl: "list_all keeps_wizard es \<Longrightarrow> wizardId (foldl step s es) = wizardId s"
  by (induction es arbitrary: s) (simp_all add: keeps_wizard_step)

lemma inflight_replicate:
  "starts_request m \<Longrightarrow>
   length (inflight (foldl step s (replicate n (Receive p m en)))) = length (inflight s) + n"
  by (induction n arbitrary: s) (auto simp: onDidReceiveMessage_inflight starts_request_def)

section \<open>Facts about the bootstrap script\<close>




lemma echo_e_no_Exit: "snd (echo_e e p m t) \<noteq> Some (Exit c)"
  by (simp add: echo_e_def run_cmd_def)
























section \<open>The claims\<close>

text \<open>
  C1. After the wizard panel is disposed, by the user closing the panel or by an
  \<open>openEditor\<close> message whose editor opens, \<open>wizardId\<close> and \<open>currentPage\<close> are both
  undefined. This holds in every state the host's events can reach; it rests on the
  invariant that \<open>currentPage\<close> is undefined whenever \<open>wizardId\<close> is.
\<close>

theorem disposal_resets_wizard_state:
  assumes "list_all uuid_ok es"
  shows "wizardId (step (run es) (Close p en)) = None \<and>
         currentPage (step (run es) (Close p en)) = None \<and>
         (command m = Some ''openEditor'' \<and> editor_opens en \<longrightarrow>
            wizardId (step (run es) (Receive p m en)) = None \<and>
            currentPage (step (run es) (Receive p m en)) = None)"
proof -
  have "wizard_inv (run es)" using assms by (rule wizard_inv_run)
  then have c: "\<not> truthy (wizardId (run es)) \<Longrightarrow> currentPage (run es) = None"
    by (auto simp: wizard_inv_def)
  show ?thesis
    using c
    by (auto simp: onDidDispose_fields onDidReceiveMessage_wizardId onDidReceiveMessage_currentPage)
qed

text \<open>C1 at a wizard that was opened and moved to page 2.\<close>

theorem disposal_resets_wizard_state_witness:
  "list_all uuid_ok one_panel \<and>
   wizardId (run one_panel) = Some ''w1'' \<and>
   currentPage (run one_panel) = Some 2 \<and>
   wizardId (step (run one_panel) (Close 0 env0)) = None \<and>
   currentPage (step (run one_panel) (Close 0 env0)) = None \<and>
   command open_editor = Some ''openEditor'' \<and> editor_opens env0 \<and>
   wizardId (step (run one_panel) (Receive 0 open_editor env0)) = None \<and>
   currentPage (step (run one_panel) (Receive 0 open_editor env0)) = None"
  using disposal_resets_wizard_state [of one_panel 0 env0 open_editor]
  by (simp add: eval_defs input_defs)

text \<open>
  C2, as amended. An error result of the remote call is shown as the string
  \<open>message\<close>, a space, \<open>detail\<close>, with \<open>UNKNOWN_ERROR\<close> in place of a missing message and
  nothing in place of a missing detail, through \<open>showErrorMessage\<close> called with that string
  alone. The \<open>generateCode\<close> case always shows it; the \<open>outline\<close> case first asks the trial
  provider's \<open>showPopup\<close> and shows it only when that answers false.
\<close>

theorem error_results_are_formatted:
  "trace (settle (GenerateCodeAwait p m) (Resolves (Failed e)) en s) =
     trace s @ [PostMessage p StopSpinner, ShowErrorMessage (errorMessage en e)] \<and>
   trace (settle (OutlineThen p) (Resolves (Failed e)) en s) =
     trace s @ [PostMessage p StopSpinner, ShowPopup e] @
       (if showPopup en then [] else [ShowErrorMessage (errorMessage en e)]) \<and>
   errorMessage en \<lparr>error_message = Some t, error_detail = Some d\<rparr> = t @ '' '' @ d \<and>
   errorMessage en \<lparr>error_message = Some t, error_detail = None\<rparr> = t @ '' '' \<and>
   errorMessage en \<lparr>error_message = None, error_detail = Some d\<rparr> = UNKNOWN_ERROR en @ '' '' @ d \<and>
   errorMessage en \<lparr>error_message = None, error_detail = None\<rparr> = UNKNOWN_ERROR en @ '' ''"
  by (simp add: generatePlaybook_finally_def errorMessage_def Let_def)

text \<open>C2, as amended, at the error \<open>Too many requests\<close>.\<close>

theorem error_results_are_formatted_witness:
  "shown (trace (settle (GenerateCodeAwait 0 ask_code) (Resolves (Failed err0)) env0 init)) =
     [''Too many requests ''] \<and>
   shown (trace (settle (OutlineThen 0) (Resolves (Failed err0)) env0 init)) =
     [''Too many requests '']"
  using error_results_are_formatted [of 0 ask_code err0 env0 init]
  by (simp add: errorMessage_def err0_def env0_def init_def)

text \<open>
  C2 as stated fails. In the \<open>outline\<close> case no error message is shown at all when
  \<open>showPopup\<close> answers true; and an error without a message is shown as the text of
  \<open>UNKNOWN_ERROR\<close>, which is no part of the error.
\<close>

theorem error_not_surfaced_verbatim:
  "shown (trace (run [ShowPage True ''w1'' 0 env0, Receive 0 ask_outline env0,
                      Settle 0 (Resolves (Failed err0)) (env0\<lparr>showPopup := True\<rparr>)])) = [] \<and>
   shown (trace (run [ShowPage True ''w1'' 0 env0, Receive 0 ask_code env0,
                      Settle 0 (Resolves (Failed \<lparr>error_message = None, error_detail = None\<rparr>)) env0])) =
     [''unknown error '']"
  by (simp add: eval_defs input_defs)

text \<open>
  C3, as amended. A message that starts a generation request (\<open>outline\<close> without an
  outline, \<open>generateCode\<close> without a playbook) makes exactly one remote request and
  leaves exactly that request in flight; no other message makes a request. A settled
  response removes exactly the request it settles and posts its \<open>stopSpinner\<close>. At every
  moment the requests made are the requests settled plus the requests in flight. The
  \<open>outline\<close> case returns without waiting and the \<open>generateCode\<close> case waits inside its
  own invocation only, so \<open>n\<close> such messages handled before any response make \<open>n\<close>
  requests, none of them settled, and leave \<open>n\<close> more in flight.
\<close>

theorem requests_are_not_serialised:
  "(starts_request m \<longrightarrow>
      trace (step s (Receive p m en)) =
        trace s @ [PostMessage p StartSpinner,
                   PlaybookGenerationRequest (text' m)
                     (if command m = Some ''outline'' then None else outline m)
                     (command m = Some ''outline'' \<or> outline m = None)
                     (generationId m) (wizardId s)] \<and>
      inflight (step s (Receive p m en)) =
        inflight s @ [if command m = Some ''outline'' then OutlineThen p else GenerateCodeAwait p m]) \<and>
   (\<not> starts_request m \<longrightarrow>
      filter is_request (trace (step s (Receive p m en))) = filter is_request (trace s) \<and>
      inflight (step s (Receive p m en)) = inflight s) \<and>
   (i < length (inflight s) \<longrightarrow>
      inflight (step s (Settle i oc en)) = take i (inflight s) @ drop (Suc i) (inflight s) \<and>
      filter is_request (trace (step s (Settle i oc en))) = filter is_request (trace s) \<and>
      filter is_stop (trace (step s (Settle i oc en))) =
        filter is_stop (trace s) @ [PostMessage (pending_panel (inflight s ! i)) StopSpinner]) \<and>
   length (filter is_request (trace (run es))) =
     length (filter is_stop (trace (run es))) + length (inflight (run es)) \<and>
   (starts_request m \<longrightarrow>
      length (inflight (foldl step s (replicate n (Receive p m en)))) = length (inflight s) + n \<and>
      length (filter is_request (trace (foldl step s (replicate n (Receive p m en))))) =
        length (filter is_request (trace s)) + n \<and>
      filter is_stop (trace (foldl step s (replicate n (Receive p m en)))) = filter is_stop (trace s))"
proof -
  have a: "starts_request m \<longrightarrow>
      trace (step s (Receive p m en)) =
        trace s @ [PostMessage p StartSpinner,
                   PlaybookGenerationRequest (text' m)
                     (if command m = Some ''outline'' then None else outline m)
                     (command m = Some ''outline'' \<or> outline m = None)
                     (generationId m) (wizardId s)] \<and>
      inflight (step s (Receive p m en)) =
        inflight s @ [if command m = Some ''outline'' then OutlineThen p else GenerateCodeAwait p m]"
    by (auto simp: onDidReceiveMessage_starts onDidReceiveMessage_inflight starts_request_def)
  have b: "\<not> starts_request m \<longrightarrow>
      filter is_request (trace (step s (Receive p m en))) = filter is_request (trace s) \<and>
      inflight (step s (Receive p m en)) = inflight s"
    by (auto simp: onDidReceiveMessage_requests onDidReceiveMessage_inflight starts_request_def)
  have c: "i < length (inflight s) \<longrightarrow>
      inflight (step s (Settle i oc en)) = take i (inflight s) @ drop (Suc i) (inflight s) \<and>
      filter is_request (trace (step s (Settle i oc en))) = filter is_request (trace s) \<and>
      filter is_stop (trace (step s (Settle i oc en))) =
        filter is_stop (trace s) @ [PostMessage (pending_panel (inflight s ! i)) StopSpinner]"
    by (simp add: settle_requests settle_fields)
  have d: "starts_request m \<longrightarrow>
      length (inflight (foldl step s (replicate n (Receive p m en)))) = length (inflight s) + n \<and>
      length (filter is_request (trace (foldl step s (replicate n (Receive p m en))))) =
        length (filter is_request (trace s)) + n \<and>
      filter is_stop (trace (foldl step s (replicate n (Receive p m en)))) = filter is_stop (trace s)"
    using inflight_replicate [of m s n p en] requests_replicate [of m s n p en] by blast
  from a b c d balance_run [of es] show ?thesis by blast
qed

text \<open>C3, as amended, at three \<open>outline\<close> messages in a row and one response.\<close>

theorem requests_are_not_serialised_witness:
  "starts_request ask_outline \<and>
   trace (step (run [ShowPage True ''w1'' 0 env0]) (Receive 0 ask_outline env0)) =
     trace (run [ShowPage True ''w1'' 0 env0]) @
       [PostMessage 0 StartSpinner,
        PlaybookGenerationRequest (Some ''install nginx'') None True (Some ''g1'') (Some ''w1'')] \<and>
   inflight (step (run [ShowPage True ''w1'' 0 env0]) (Receive 0 ask_outline env0)) = [OutlineThen 0] \<and>
   length (inflight (foldl step (run [ShowPage True ''w1'' 0 env0])
                       (replicate 3 (Receive 0 ask_outline env0)))) = 3 \<and>
   length (filter is_request (trace (foldl step (run [ShowPage True ''w1'' 0 env0])
                                        (replicate 3 (Receive 0 ask_outline env0))))) = 3 \<and>
   filter is_stop (trace (foldl step (run [ShowPage True ''w1'' 0 env0])
                            (replicate 3 (Receive 0 ask_outline env0)))) = [] \<and>
   length (inflight (step (foldl step (run [ShowPage True ''w1'' 0 env0])
                             (replicate 3 (Receive 0 ask_outline env0)))
                          (Settle 1 (Rejects ''timeout'') env0))) = 2"
proof -
  let ?opened = "run [ShowPage True ''w1'' 0 env0]"
  let ?three = "foldl step ?opened (replicate 3 (Receive 0 ask_outline env0))"
  have a: "starts_request ask_outline"
    by (simp add: starts_request_def input_defs msg0_def)
  have b: "inflight ?opened = []" "filter is_request (trace ?opened) = []" "filter is_stop (trace ?opened) = []"
          "wizardId ?opened = Some ''w1''"
    by (simp_all add: eval_defs)
  have m: "command ask_outline = Some ''outline''" "text' ask_outline = Some ''install nginx''"
          "generationId ask_outline = Some ''g1''"
    by (simp_all add: input_defs msg0_def)
  have c: "trace (step ?opened (Receive 0 ask_outline env0)) =
             trace ?opened @ [PostMessage 0 StartSpinner,
               PlaybookGenerationRequest (Some ''install nginx'') None True (Some ''g1'') (Some ''w1'')]"
          "inflight (step ?opened (Receive 0 ask_outline env0)) = [OutlineThen 0]"
          "length (inflight ?three) = 3"
          "length (filter is_request (trace ?three)) = 3"
          "filter is_stop (trace ?three) = []"
    using requests_are_not_serialised [of ask_outline ?opened 0 env0 0 "Rejects ''timeout''" "[]" 3] a b m
    by simp_all
  have d: "length (inflight (step ?three (Settle 1 (Rejects ''timeout'') env0))) = 2"
    using requests_are_not_serialised [of ask_outline ?three 0 env0 1 "Rejects ''timeout''" "[]" 0] c(3)
    by simp
  from a c d show ?thesis by blast
qed

text \<open>
  C3 as stated fails: after two \<open>outline\<close> messages, each handled to the end of the
  callback, two generation requests have been made, none has settled, and both are in
  flight.
\<close>

theorem two_requests_in_flight:
  "\<not> length (inflight (run [ShowPage True ''w1'' 0 env0, Receive 0 ask_outline env0,
                              Receive 0 ask_outline env0])) \<le> 1 \<and>
   filter is_request (trace (run [ShowPage True ''w1'' 0 env0, Receive 0 ask_outline env0,
                                  Receive 0 ask_outline env0])) =
     [PlaybookGenerationRequest (Some ''install nginx'') None True (Some ''g1'') (Some ''w1''),
      PlaybookGenerationRequest (Some ''install nginx'') None True (Some ''g1'') (Some ''w1'')] \<and>
   filter is_stop (trace (run [ShowPage True ''w1'' 0 env0, Receive 0 ask_outline env0,
                               Receive 0 ask_outline env0])) = []"
  by (simp add: eval_defs input_defs)

text \<open>
  C4. The message callback recognises exactly the five commands \<open>outline\<close>,
  \<open>generateCode\<close>, \<open>transition\<close>, \<open>openEditor\<close> and \<open>resetOutline\<close>: a message leaves
  the whole state (the two variables, the trace of calls, the requests in flight, the
  panels) unchanged in every situation exactly when its command is none of the five.
\<close>

theorem handler_recognises_five_commands:
  "(\<forall>p en s. onDidReceiveMessage p en m s = s) \<longleftrightarrow> command m \<notin> commands"
  using onDidReceiveMessage_other onDidReceiveMessage_acts by blast

text \<open>C4 at a message with the command \<open>ping\<close>, and at a \<open>transition\<close> message.\<close>

theorem handler_recognises_five_commands_witness:
  "command (msg0\<lparr>command := Some ''ping''\<rparr>) \<notin> commands \<and>
   onDidReceiveMessage 0 env0 (msg0\<lparr>command := Some ''ping''\<rparr>) (run one_panel) = run one_panel \<and>
   command transition2 \<in> commands \<and>
   onDidReceiveMessage 0 env0 transition2 (run [ShowPage True ''w1'' 0 env0]) \<noteq>
     run [ShowPage True ''w1'' 0 env0]"
proof -
  have a: "command (msg0\<lparr>command := Some ''ping''\<rparr>) \<notin> commands"
    by (simp add: commands_def msg0_def)
  have b: "currentPage (onDidReceiveMessage 0 env0 transition2 (run [ShowPage True ''w1'' 0 env0])) = Some 2"
    by (simp add: eval_defs input_defs)
  have c: "currentPage (run [ShowPage True ''w1'' 0 env0]) = Some 1"
    by (simp add: eval_defs)
  have d: "command transition2 \<in> commands"
    by (simp add: commands_def input_defs msg0_def)
  from b c have e: "onDidReceiveMessage 0 env0 transition2 (run [ShowPage True ''w1'' 0 env0]) \<noteq>
      run [ShowPage True ''w1'' 0 env0]"
    by auto
  show ?thesis
    using handler_recognises_five_commands [of "msg0\<lparr>command := Some ''ping''\<rparr>"] a d e by simp
qed

text \<open>
  C5, as amended. Opening the wizard for an authenticated user sets \<open>wizardId\<close> to the
  identifier \<open>uuidv4()\<close> returned; it keeps that value through every later event that is
  neither another authenticated open nor a close of any panel (a disposal, or an
  \<open>openEditor\<close> message whose editor opens); and a close of any panel makes it undefined.
\<close>

theorem wizardId_between_open_and_close:
  assumes "list_all keeps_wizard es"
  shows "wizardId (foldl step (step s (ShowPage True u p en)) es) = Some u \<and>
         wizardId (step (foldl step (step s (ShowPage True u p en)) es) (Close q en')) = None \<and>
         (command m = Some ''openEditor'' \<and> editor_opens en' \<longrightarrow>
            wizardId (step (foldl step (step s (ShowPage True u p en)) es) (Receive q m en')) = None)"
proof -
  have "wizardId (step s (ShowPage True u p en)) = Some u"
    by (simp add: showPlaybookGenerationPage_def Let_def sendActionEvent_fields)
  with assms show ?thesis
    by (simp add: keeps_wizard_foldl onDidDispose_fields onDidReceiveMessage_wizardId)
qed

text \<open>C5, as amended, at a wizard that changes page, asks for an outline and sees the
  request fail.\<close>

theorem wizardId_between_open_and_close_witness:
  "list_all keeps_wizard [Receive 0 transition2 env0, Receive 0 ask_outline env0,
                          Settle 0 (Rejects ''timeout'') env0] \<and>
   wizardId (foldl step (step init (ShowPage True ''w1'' 0 env0))
               [Receive 0 transition2 env0, Receive 0 ask_outline env0,
                Settle 0 (Rejects ''timeout'') env0]) = Some ''w1'' \<and>
   wizardId (step (foldl step (step init (ShowPage True ''w1'' 0 env0))
               [Receive 0 transition2 env0, Receive 0 ask_outline env0,
                Settle 0 (Rejects ''timeout'') env0]) (Close 0 env0)) = None \<and>
   wizardId (step (foldl step (step init (ShowPage True ''w1'' 0 env0))
               [Receive 0 transition2 env0, Receive 0 ask_outline env0,
                Settle 0 (Rejects ''timeout'') env0]) (Receive 0 open_editor env0)) = None"
  using wizardId_between_open_and_close
    [of "[Receive 0 transition2 env0, Receive 0 ask_outline env0, Settle 0 (Rejects ''timeout'') env0]"
        init "''w1''" 0 env0 0 env0 open_editor]
  by (simp add: input_defs msg0_def env0_def editor_opens_def)

text \<open>
  C5 as stated fails: with two wizards open, closing the first leaves the second panel
  live and \<open>wizardId\<close> undefined.
\<close>

theorem live_panel_without_wizardId:
  "1 \<in> set (panels (run two_panels)) \<and> wizardId (run two_panels) = None"
  by (simp add: eval_defs input_defs)

text \<open>
  C6. A \<open>transition\<close> message received while \<open>wizardId\<close> is defined sends exactly one
  feedback request, with that identifier, the action \<open>TRANSITION\<close>, \<open>fromPage\<close> the
  previous \<open>currentPage\<close> and \<open>toPage\<close> the message's, and sets \<open>currentPage\<close> to the
  message's \<open>toPage\<close>. The only other call is the error message shown when the feedback
  request throws.
\<close>

theorem transition_sends_one_feedback:
  assumes "list_all uuid_ok es" and "wizardId (run es) = Some w" and "command m = Some ''transition''"
  shows "trace (step (run es) (Receive p m en)) =
           trace (run es) @
             FeedbackRequest w TRANSITION (currentPage (run es)) (toPage m) (test_token en) #
             (case feedback_throws en of None \<Rightarrow> [] | Some e \<Rightarrow> [ShowErrorMessage e]) \<and>
         filter is_feedback (since (run es) (step (run es) (Receive p m en))) =
           [FeedbackRequest w TRANSITION (currentPage (run es)) (toPage m) (test_token en)] \<and>
         currentPage (step (run es) (Receive p m en)) = toPage m \<and>
         wizardId (step (run es) (Receive p m en)) = Some w"
proof -
  have "wizard_inv (run es)" using assms(1) by (rule wizard_inv_run)
  with assms(2) have t: "truthy (wizardId (run es))" by (simp add: wizard_inv_def)
  have tr: "trace (step (run es) (Receive p m en)) =
           trace (run es) @
             FeedbackRequest w TRANSITION (currentPage (run es)) (toPage m) (test_token en) #
             (case feedback_throws en of None \<Rightarrow> [] | Some e \<Rightarrow> [ShowErrorMessage e])"
    using t assms(2,3) by (simp add: onDidReceiveMessage_def sendActionEvent_trace)
  have f: "filter is_feedback (since (run es) (step (run es) (Receive p m en))) =
           [FeedbackRequest w TRANSITION (currentPage (run es)) (toPage m) (test_token en)]"
    unfolding since_def tr by (simp split: option.splits)
  have c: "currentPage (step (run es) (Receive p m en)) = toPage m"
    using t assms(3) by (simp add: onDidReceiveMessage_currentPage)
  have w: "wizardId (step (run es) (Receive p m en)) = Some w"
    using assms(2,3) by (simp add: onDidReceiveMessage_wizardId)
  from tr f c w show ?thesis by blast
qed

text \<open>C6 at a freshly opened wizard and a transition to page 2.\<close>

theorem transition_sends_one_feedback_witness:
  "list_all uuid_ok [ShowPage True ''w1'' 0 env0] \<and>
   wizardId (run [ShowPage True ''w1'' 0 env0]) = Some ''w1'' \<and>
   command transition2 = Some ''transition'' \<and>
   trace (step (run [ShowPage True ''w1'' 0 env0]) (Receive 0 transition2 env0)) =
     trace (run [ShowPage True ''w1'' 0 env0]) @ [FeedbackRequest ''w1'' TRANSITION (Some 1) (Some 2) False] \<and>
   currentPage (step (run [ShowPage True ''w1'' 0 env0]) (Receive 0 transition2 env0)) = Some 2"
  using transition_sends_one_feedback [of "[ShowPage True ''w1'' 0 env0]" "''w1''" transition2 0 env0]
  by (simp add: eval_defs input_defs)




text \<open>
  C8. \<open>generatePlaybook\<close> posts \<open>startSpinner\<close>, makes the request and posts
  \<open>stopSpinner\<close>, in this order and to the same panel, whatever the outcome of the remote
  call: a successful response, an error response, or an exception, which goes on to the
  caller after \<open>stopSpinner\<close>. The first thing either waiting piece of code does when a
  request settles is that \<open>stopSpinner\<close>.
\<close>

theorem spinner_always_stopped:
  "trace (fst (generatePlaybook_finally p oc (generatePlaybook t ol g p s))) =
     trace s @ [PostMessage p StartSpinner,
                PlaybookGenerationRequest t ol (ol = None) g (wizardId s),
                PostMessage p StopSpinner] \<and>
   snd (generatePlaybook_finally p oc (generatePlaybook t ol g p s)) =
     (case oc of Resolves r \<Rightarrow> Inr r | Rejects e \<Rightarrow> Inl e) \<and>
   take (Suc (length (trace s'))) (trace (settle k oc en s')) =
     trace s' @ [PostMessage (pending_panel k) StopSpinner]"
  by (cases k; cases oc)
     (auto simp: generatePlaybook_finally_def Let_def postPlaybook_def contentMatch_def
           split: response.splits)

text \<open>C8 at a remote call that throws.\<close>

theorem spinner_always_stopped_witness:
  "trace (fst (generatePlaybook_finally 0 (Rejects ''timeout'')
                 (generatePlaybook (Some ''install nginx'') None (Some ''g1'') 0 init))) =
     [PostMessage 0 StartSpinner,
      PlaybookGenerationRequest (Some ''install nginx'') None True (Some ''g1'') None,
      PostMessage 0 StopSpinner] \<and>
   snd (generatePlaybook_finally 0 (Rejects ''timeout'')
          (generatePlaybook (Some ''install nginx'') None (Some ''g1'') 0 init)) = Inl ''timeout''"
  using spinner_always_stopped [of 0 "Rejects ''timeout''" "Some ''install nginx''" None "Some ''g1''" init]
  by (simp add: init_def)

text \<open>
  C9, as amended. Handling an \<open>openEditor\<close> message whose editor opens sends the
  \<open>CLOSE_ACCEPT\<close> event once when \<open>wizardId\<close> is defined and no close event when it is
  not; \<open>wizardId\<close> is cleared before \<open>panel.dispose()\<close>, so the disposal callback sends
  nothing and \<open>CLOSE_CANCEL\<close> never follows.
\<close>

theorem accept_sends_at_most_one_close:
  assumes "list_all uuid_ok es" and "command m = Some ''openEditor''" and "editor_opens en"
  shows "trace (step (run es) (Receive p m en)) =
           trace (run es) @ [OpenTextDocument ''ansible'' (playbook m), ShowTextDocument] @
             (case wizardId (run es) of
                None \<Rightarrow> []
              | Some w \<Rightarrow>
                  FeedbackRequest w CLOSE_ACCEPT (currentPage (run es)) None (test_token en) #
                  (case feedback_throws en of None \<Rightarrow> [] | Some e \<Rightarrow> [ShowErrorMessage e])) @
             [PanelDispose p] \<and>
         filter is_close (since (run es) (step (run es) (Receive p m en))) =
           (case wizardId (run es) of
              None \<Rightarrow> []
            | Some w \<Rightarrow> [FeedbackRequest w CLOSE_ACCEPT (currentPage (run es)) None (test_token en)]) \<and>
         wizardId (step (run es) (Receive p m en)) = None"
proof -
  have i: "wizard_inv (run es)" using assms(1) by (rule wizard_inv_run)
  show ?thesis
  proof (cases "wizardId (run es)")
    case None
    then show ?thesis
      using assms(2,3)
      by (simp add: onDidReceiveMessage_openEditor since_def onDidReceiveMessage_wizardId)
  next
    case (Some w)
    with i have t: "truthy (wizardId (run es))" by (simp add: wizard_inv_def)
    show ?thesis
      using assms(2,3) Some t
      by (simp add: onDidReceiveMessage_openEditor since_def onDidReceiveMessage_wizardId
               split: option.splits)
  qed
qed

text \<open>C9, as amended, at a wizard on page 2.\<close>

theorem accept_sends_at_most_one_close_witness:
  "list_all uuid_ok one_panel \<and>
   command open_editor = Some ''openEditor'' \<and> editor_opens env0 \<and>
   wizardId (run one_panel) = Some ''w1'' \<and>
   filter is_close (since (run one_panel) (step (run one_panel) (Receive 0 open_editor env0))) =
     [FeedbackRequest ''w1'' CLOSE_ACCEPT (Some 2) None False] \<and>
   wizardId (step (run one_panel) (Receive 0 open_editor env0)) = None"
  using accept_sends_at_most_one_close [of one_panel open_editor env0 0]
  by (simp add: eval_defs input_defs)

text \<open>
  C9 as stated fails: with two wizards open and the first one closed, accepting the
  second one, whose panel is live, sends no close event at all.
\<close>

theorem accepted_wizard_without_close_event:
  "1 \<in> set (panels (run two_panels)) \<and>
   filter is_close (since (run two_panels) (step (run two_panels) (Receive 1 open_editor env0))) = []"
  by (simp add: eval_defs input_defs)

text \<open>
  C10. For a user who is not authenticated \<open>showPlaybookGenerationPage\<close> shows the
  log-in error message and does nothing else: no panel is created, no action event is
  sent, and \<open>wizardId\<close> and \<open>currentPage\<close> keep their values.
\<close>

theorem unauthenticated_changes_nothing:
  "wizardId (showPlaybookGenerationPage False u p en s) = wizardId s \<and>
   currentPage (showPlaybookGenerationPage False u p en s) = currentPage s \<and>
   panels (showPlaybookGenerationPage False u p en s) = panels s \<and>
   inflight (showPlaybookGenerationPage False u p en s) = inflight s \<and>
   trace (showPlaybookGenerationPage False u p en s) =
     trace s @ [ShowErrorMessage ''Log in to Ansible Lightspeed to use this feature.'']"
  by (simp add: showPlaybookGenerationPage_def)

text \<open>C10 at a wizard that is already open on page 2.\<close>

theorem unauthenticated_changes_nothing_witness:
  "wizardId (showPlaybookGenerationPage False ''w2'' 1 env0 (run one_panel)) = Some ''w1'' \<and>
   currentPage (showPlaybookGenerationPage False ''w2'' 1 env0 (run one_panel)) = Some 2 \<and>
   panels (showPlaybookGenerationPage False ''w2'' 1 env0 (run one_panel)) = [0]"
  using unauthenticated_changes_nothing [of "''w2''" 1 env0 "run one_panel"]
  by (simp add: eval_defs input_defs)

end
